theory Spec2Isabelle
  imports Complex_Main
begin

section \<open>Strings\<close>

text \<open>
  A JavaScript string is modelled as a \<^typ>\<open>string\<close> holding its UTF-8 bytes. The
  program only ever searches for ASCII needles, and an ASCII needle occurs in a text
  exactly when its bytes occur in the text's UTF-8 encoding.

  \<open>toLowerCase\<close> maps the letters \<open>A\<close>..\<open>Z\<close> to \<open>a\<close>..\<open>z\<close> and leaves every other
  byte alone. JavaScript also lower-cases letters outside ASCII, but the result of that
  is again outside ASCII, with two exceptions: U+0130 becomes \<open>i\<close> followed by U+0307
  and U+212A becomes \<open>k\<close>. None of the needles of this program contains \<open>k\<close> or ends in
  \<open>i\<close>, so \<open>str_includes (toLowerCase s) needle\<close> below agrees with the program's
  \<open>s.toLowerCase().includes(needle)\<close> on every text.
\<close>

definition toLowerChar :: "char \<Rightarrow> char" where
  "toLowerChar c =
     (let n = (of_char c :: nat) in if 65 \<le> n \<and> n \<le> 90 then char_of (n + 32) else c)"

definition toLowerCase :: "string \<Rightarrow> string" where
  "toLowerCase s = map toLowerChar s"

fun startsWith :: "string \<Rightarrow> string \<Rightarrow> bool" where
  "startsWith s [] = True"
| "startsWith [] (c # needle) = False"
| "startsWith (x # s) (c # needle) = (x = c \<and> startsWith s needle)"

fun str_includes :: "string \<Rightarrow> string \<Rightarrow> bool" where
  "str_includes [] needle = (needle = [])"
| "str_includes (x # s) needle = (startsWith (x # s) needle \<or> str_includes s needle)"

section \<open>Pictographs\<close>

text \<open>
  The pictographs of the string literals, as UTF-8 bytes. \<open>vs16\<close> is the variation
  selector U+FE0F that follows most of them in the source. (The file of the NEA variant
  shows these bytes decoded in a one-byte code page; the file of the OpenWeatherMap
  variant has the same pictographs intact.)
\<close>

definition vs16 :: string where
  "vs16 = [CHR 0xEF, CHR 0xB8, CHR 0x8F]"

definition emoji_thunder :: string where
  "emoji_thunder = [CHR 0xE2, CHR 0x9B, CHR 0x88] @ vs16"

definition emoji_rain :: string where
  "emoji_rain = [CHR 0xF0, CHR 0x9F, CHR 0x8C, CHR 0xA7] @ vs16"

definition emoji_cloud :: string where
  "emoji_cloud = [CHR 0xE2, CHR 0x98, CHR 0x81] @ vs16"

definition emoji_sun_behind_cloud :: string where
  "emoji_sun_behind_cloud = [CHR 0xE2, CHR 0x9B, CHR 0x85]"

definition emoji_sun :: string where
  "emoji_sun = [CHR 0xE2, CHR 0x98, CHR 0x80] @ vs16"

definition emoji_fog :: string where
  "emoji_fog = [CHR 0xF0, CHR 0x9F, CHR 0x8C, CHR 0xAB] @ vs16"

definition emoji_sun_small_cloud :: string where
  "emoji_sun_small_cloud = [CHR 0xF0, CHR 0x9F, CHR 0x8C, CHR 0xA4] @ vs16"

definition emoji_warning :: string where
  "emoji_warning = [CHR 0xE2, CHR 0x9A, CHR 0xA0] @ vs16"

definition emoji_thermometer :: string where
  "emoji_thermometer = [CHR 0xF0, CHR 0x9F, CHR 0x8C, CHR 0xA1] @ vs16"

definition emoji_sparkles :: string where
  "emoji_sparkles = [CHR 0xE2, CHR 0x9C, CHR 0xA8]"

definition emoji_beach :: string where
  "emoji_beach = [CHR 0xF0, CHR 0x9F, CHR 0x8F, CHR 0x96] @ vs16"

definition emoji_thumbs_up :: string where
  "emoji_thumbs_up = [CHR 0xF0, CHR 0x9F, CHR 0x91, CHR 0x8D]"

definition emoji_coat :: string where
  "emoji_coat = [CHR 0xF0, CHR 0x9F, CHR 0xA7, CHR 0xA5]"

section \<open>Forecast payload of the NEA variant\<close>

text \<open>
  The 4-day forecast as the program reads it. A number is a \<^typ>\<open>real\<close>: every
  number a JSON text can denote is one. \<open>temperature\<close> and \<open>relative_humidity\<close> have
  the same shape, a \<open>low\<close> and a \<open>high\<close>.
\<close>

record range =
  low :: real
  high :: real

record day_forecast =
  date :: string
  forecast :: string
  temperature :: range
  relative_humidity :: range

section \<open>Icons and recommendation (NEA variant)\<close>

definition getWeatherIcon :: "string \<Rightarrow> string" where
  "getWeatherIcon fc =
     (let forecastLower = toLowerCase fc in
      if str_includes forecastLower ''thunder'' then emoji_thunder
      else if str_includes forecastLower ''rain'' \<or> str_includes forecastLower ''shower''
        then emoji_rain
      else if str_includes forecastLower ''cloudy'' then emoji_cloud
      else if str_includes forecastLower ''partly cloudy'' then emoji_sun_behind_cloud
      else if str_includes forecastLower ''fair'' \<or> str_includes forecastLower ''sunny''
        then emoji_sun
      else if str_includes forecastLower ''hazy'' then emoji_fog
      else emoji_sun_small_cloud)"

definition msg_severe :: string where
  "msg_severe =
     emoji_warning @ '' Not ideal for cleanup today. Stay safe and check back tomorrow!''"

definition msg_gear :: string where
  "msg_gear = emoji_rain @ '' Possible rain expected. Bring waterproof gear!''"

definition msg_heat :: string where
  "msg_heat =
     emoji_thermometer @ '' Hot day ahead! Remember sunscreen, hat, and plenty of water.''"

definition msg_perfect :: string where
  "msg_perfect =
     emoji_sparkles @ '' Perfect weather for a beach cleanup! Let's go! '' @ emoji_beach"

definition msg_good :: string where
  "msg_good = emoji_thumbs_up @ '' Good conditions for cleanup. See you at the beach!''"

definition getCleanupRecommendation :: "day_forecast \<Rightarrow> string" where
  "getCleanupRecommendation todayForecast =
     (let forecastLower = toLowerCase (forecast todayForecast);
          highTemp = high (temperature todayForecast) in
      if str_includes forecastLower ''thunder'' \<or> str_includes forecastLower ''heavy rain''
        then msg_severe
      else if str_includes forecastLower ''shower'' \<or> str_includes forecastLower ''rain''
        then msg_gear
      else if highTemp > 32 then msg_heat
      else if str_includes forecastLower ''fair'' \<or> str_includes forecastLower ''sunny''
        then msg_perfect
      else msg_good)"

section \<open>Errors\<close>

text \<open>
  Every \<open>throw\<close> and every rejected promise is a value of this type; a \<open>try\<close> block is a
  function into \<open>js_error + 'a\<close>, and its \<open>catch\<close> is the case distinction on the result.
\<close>

datatype js_error =
    Error string
  | TypeError
  | SyntaxError
  | RangeError
  | SecurityError
  | QuotaExceededError

section \<open>LocalStorage\<close>

text \<open>
  The text held under a storage key is known by what \<open>JSON.parse\<close> makes of it: either
  it is not JSON, or it denotes a JSON document. \<open>JSON.stringify\<close> of a document is a
  text that parses back to that document. An object is the map from the names of its
  members to their values, an array the list of its elements, \<open>None\<close> for \<open>null\<close>; the
  values are of the type \<open>'v\<close> of the things the program stores. The top level of a
  text need not be an object.
\<close>

datatype 'v json_doc =
    JObject "string \<rightharpoonup> 'v"
  | JArray "'v option list"
  | JNull
  | JBool bool
  | JNumber real
  | JString string

datatype 'v item_text =
    NotJson string
  | JsonText "'v json_doc"

text \<open>
  The browser decides whether the page may use the storage at all (\<open>accessDenied\<close>: every
  access throws) and whether a text can be produced and still fits (\<open>quota\<close>: if not,
  \<open>JSON.stringify\<close> or \<open>setItem\<close> throws and nothing is stored). \<open>arrayLength\<close> is what the
  engine makes of a value that is assigned to the \<open>length\<close> of an array: a length, or
  \<open>None\<close> when the value does not convert to one and the assignment throws.
\<close>

record 'v storage =
  entries :: "string \<rightharpoonup> 'v item_text"
  accessDenied :: bool
  quota :: "string \<Rightarrow> 'v item_text \<Rightarrow> bool"
  arrayLength :: "'v \<Rightarrow> nat option"

definition storageKey :: string where
  "storageKey = ''shoresquad_data''"

definition getItem :: "'v storage \<Rightarrow> string \<Rightarrow> js_error + 'v item_text option" where
  "getItem st k = (if accessDenied st then Inl SecurityError else Inr (entries st k))"

definition setItem :: "'v storage \<Rightarrow> string \<Rightarrow> 'v item_text \<Rightarrow> js_error + 'v storage" where
  "setItem st k text =
     (if accessDenied st then Inl SecurityError
      else if \<not> quota st k text then Inl QuotaExceededError
      else Inr (st\<lparr>entries := (entries st)(k \<mapsto> text)\<rparr>))"

text \<open>\<open>JSON.parse(null)\<close> is \<open>null\<close>: \<open>getItem\<close> returns \<open>null\<close> for a key that is not there.\<close>

fun JSON_parse :: "'v item_text option \<Rightarrow> js_error + 'v json_doc" where
  "JSON_parse None = Inr JNull"
| "JSON_parse (Some (NotJson t)) = Inl SyntaxError"
| "JSON_parse (Some (JsonText d)) = Inr d"

definition JSON_stringify :: "'v json_doc \<Rightarrow> 'v item_text" where
  "JSON_stringify d = JsonText d"

fun truthy :: "'v json_doc \<Rightarrow> bool" where
  "truthy (JObject m) = True"
| "truthy (JArray xs) = True"
| "truthy JNull = False"
| "truthy (JBool b) = b"
| "truthy (JNumber r) = (r \<noteq> 0)"
| "truthy (JString t) = (t \<noteq> [])"

text \<open>
  A property name is an array index when it is the decimal numeral, without leading
  zeros, of a number below \<open>2^32 - 1\<close>.
\<close>

definition is_digit :: "char \<Rightarrow> bool" where
  "is_digit c = (48 \<le> (of_char c :: nat) \<and> (of_char c :: nat) \<le> 57)"

definition decimal :: "string \<Rightarrow> nat" where
  "decimal k = foldl (\<lambda>n c. 10 * n + (of_char c - 48)) 0 k"

definition array_index :: "string \<Rightarrow> nat option" where
  "array_index k =
     (if k \<noteq> [] \<and> list_all is_digit k \<and> (if hd k = CHR ''0'' then k = ''0'' else True) \<and>
         decimal k < 4294967295
      then Some (decimal k) else None)"

text \<open>
  \<open>storageData[key] = data\<close>, seen through the later \<open>JSON.stringify\<close>.
  \<^item> On an object the member is set. The one exception is the name \<open>__proto__\<close>: unless
    the object has a member of that name (\<open>JSON.parse\<close> makes one from a text that has it),
    the assignment goes to the setter that every object inherits, which changes the
    prototype and adds no member, so that \<open>JSON.stringify\<close> writes what it wrote before.
  \<^item> On an array an index sets that element, the elements skipped before it being holes
    that are written as \<open>null\<close>; \<open>length\<close> cuts or extends the array, or throws; any other
    name becomes a property that \<open>JSON.stringify\<close> does not write.
  \<^item> On a number, a string or \<open>true\<close> the assignment is ignored: the script is not in
    strict mode.
\<close>

fun assign :: "'v storage \<Rightarrow> 'v json_doc \<Rightarrow> string \<Rightarrow> 'v \<Rightarrow> js_error + 'v json_doc" where
  "assign st (JObject m) k data =
     Inr (if k = ''__proto__'' \<and> m k = None then JObject m else JObject (m(k \<mapsto> data)))"
| "assign st (JArray xs) k data =
     (case array_index k of
        Some i \<Rightarrow>
          Inr (JArray (if i < length xs then xs[i := Some data]
                       else xs @ replicate (i - length xs) None @ [Some data]))
      | None \<Rightarrow>
          if k = ''length'' then
            (case arrayLength st data of
               None \<Rightarrow> Inl RangeError
             | Some n \<Rightarrow> Inr (JArray (take n xs @ replicate (n - length xs) None)))
          else Inr (JArray xs))"
| "assign st d k data = Inr d"

definition saveToStorage_try :: "string \<Rightarrow> 'v \<Rightarrow> 'v storage \<Rightarrow> js_error + 'v storage" where
  "saveToStorage_try k data st =
     (case getItem st storageKey of
        Inl e \<Rightarrow> Inl e
      | Inr raw \<Rightarrow>
          (case JSON_parse raw of
             Inl e \<Rightarrow> Inl e
           | Inr parsed \<Rightarrow>
               (let storageData = (if truthy parsed then parsed else JObject Map.empty)
                in case assign st storageData k data of
                     Inl e \<Rightarrow> Inl e
                   | Inr storageData' \<Rightarrow> setItem st storageKey (JSON_stringify storageData'))))"

text \<open>The result is the returned boolean and the storage afterwards.\<close>

definition saveToStorage :: "string \<Rightarrow> 'v \<Rightarrow> 'v storage \<Rightarrow> bool \<times> 'v storage" where
  "saveToStorage k data st =
     (case saveToStorage_try k data st of
        Inl e \<Rightarrow> (False, st)
      | Inr st' \<Rightarrow> (True, st'))"



section \<open>Payloads and program state\<close>

text \<open>
  Both NEA endpoints answer with an object whose \<open>items\<close> is a list; \<open>items\<close> is \<open>None\<close>
  when the member is missing or \<open>null\<close>. The forecast payload is typed as the program
  reads it, with an option or a list wherever the program itself tests for absence or
  emptiness. The temperature payload has an option at every level that the program
  reads: an element of \<open>items\<close> or of \<open>readings\<close> is \<open>None\<close> when it is \<open>null\<close>, and
  \<open>readings\<close> and \<open>value\<close> are \<open>None\<close> when the member is missing or \<open>null\<close>. Members
  of another JSON type than the one of the endpoint's schema are not modelled.
\<close>

record 'a payload =
  items :: "'a list option"

record general_forecast =
  general_text :: "string option"

record forecast_item =
  forecasts :: "day_forecast list"
  general :: "general_forecast option"

record reading =
  station_id :: string
  reading_value :: "real option"

record temp_item =
  readings :: "reading option list option"

type_synonym forecast_data = "forecast_item payload"
type_synonym temp_data = "temp_item option payload"

text \<open>The current-conditions payload of the OpenWeatherMap variant.\<close>

record owm_main =
  temp :: real
  feels_like :: real
  humidity :: real

record owm_condition =
  condition_main :: string
  description :: string
  icon_code :: string

record owm_wind =
  speed :: real

record weather_data =
  name :: string
  main :: owm_main
  weather :: "owm_condition list"
  wind :: owm_wind
  visibility :: real

text \<open>
  What a \<open>fetch\<close> of an endpoint comes to: the promise rejects, the response is not
  \<open>ok\<close>, its body is not JSON, or the body parses. A parsed body is \<open>None\<close> when it is
  the JSON text \<open>null\<close>.
\<close>

datatype 'a http_response =
    NetworkError
  | NotOk
  | BadBody
  | Body "'a option"

text \<open>The values the two variants save: a location, a forecast body, a weather body.\<close>

datatype stored_value =
    StoredLocation real real
  | StoredForecast "forecast_data option"
  | StoredWeather "weather_data option"

text \<open>
  What the weather widget shows. The program writes HTML; the model keeps the values
  that the template interpolates, one record per forecast card.
\<close>

record forecast_card =
  dayName :: string
  dateStr :: string
  icon :: string
  tempHigh :: real
  tempLow :: real
  desc :: string
  humidityHigh :: real

record forecast_view =
  currentTempLine :: "int option"
  cards :: "forecast_card list"
  recommendation :: string
  generalLine :: "string option"

record failure_view =
  failMessage :: string
  retryOnclick :: string

datatype widget =
    Untouched
  | ForecastPanel forecast_view
  | FailurePanel failure_view

text \<open>
  The state the weather code reads and writes: \<open>appState.currentWeather\<close>, the local
  storage of the page and the content of the element \<open>weatherWidget\<close>, which the page
  is taken to have.
\<close>

record world =
  currentWeather :: "stored_value option"
  localStorage :: "stored_value storage"
  weatherWidget :: widget

section \<open>Dates\<close>

text \<open>
  The host supplies how a date string parses (a time value in milliseconds since the
  epoch, or \<open>None\<close> for an invalid date), the offset of local time at a time value, and
  the \<open>en-SG\<close> rendering of month and day of a local time value. The day of the week
  of a time value is fixed by the language: day number plus four, modulo seven,
  counted from Sunday. An invalid date prints as \<open>Invalid Date\<close>.
\<close>

record host =
  dateParse :: "string \<Rightarrow> int option"
  localTZA :: "int \<Rightarrow> int"
  formatMonthDay :: "int \<Rightarrow> string"

definition msPerDay :: int where
  "msPerDay = 86400000"

definition weekdayNames :: "string list" where
  "weekdayNames = [''Sun'', ''Mon'', ''Tue'', ''Wed'', ''Thu'', ''Fri'', ''Sat'']"

definition weekDay :: "int \<Rightarrow> nat" where
  "weekDay t = nat ((t div msPerDay + 4) mod 7)"

definition weekdayShort :: "host \<Rightarrow> string \<Rightarrow> string" where
  "weekdayShort h d =
     (case dateParse h d of
        None \<Rightarrow> ''Invalid Date''
      | Some t \<Rightarrow> weekdayNames ! weekDay (t + localTZA h t))"

definition monthDayShort :: "host \<Rightarrow> string \<Rightarrow> string" where
  "monthDayShort h d =
     (case dateParse h d of
        None \<Rightarrow> ''Invalid Date''
      | Some t \<Rightarrow> formatMonthDay h (t + localTZA h t))"

section \<open>The weather pipeline of the NEA variant\<close>

definition fetchWeatherForecast_try ::
  "forecast_data http_response \<Rightarrow> world \<Rightarrow> js_error + (forecast_data option \<times> world)" where
  "fetchWeatherForecast_try response w =
     (case response of
        NetworkError \<Rightarrow> Inl TypeError
      | NotOk \<Rightarrow> Inl (Error ''Weather forecast unavailable'')
      | BadBody \<Rightarrow> Inl SyntaxError
      | Body data \<Rightarrow>
          Inr (data,
               w\<lparr>currentWeather := Some (StoredForecast data),
                  localStorage :=
                    snd (saveToStorage ''weatherForecast'' (StoredForecast data) (localStorage w))\<rparr>))"

definition fetchWeatherForecast ::
  "forecast_data http_response \<Rightarrow> world \<Rightarrow> forecast_data option \<times> world" where
  "fetchWeatherForecast response w =
     (case fetchWeatherForecast_try response w of
        Inl e \<Rightarrow> (None, w)
      | Inr r \<Rightarrow> r)"

definition fetchCurrentTemp_try :: "temp_data http_response \<Rightarrow> js_error + temp_data option" where
  "fetchCurrentTemp_try response =
     (case response of
        NetworkError \<Rightarrow> Inl TypeError
      | NotOk \<Rightarrow> Inl (Error ''Temperature data unavailable'')
      | BadBody \<Rightarrow> Inl SyntaxError
      | Body data \<Rightarrow> Inr data)"

definition fetchCurrentTemp :: "temp_data http_response \<Rightarrow> temp_data option" where
  "fetchCurrentTemp response =
     (case fetchCurrentTemp_try response of
        Inl e \<Rightarrow> None
      | Inr data \<Rightarrow> data)"

text \<open>
  \<open>tempData && tempData.items && tempData.items[0].readings.length > 0
     ? tempData.items[0].readings[0].value : null\<close>.
  Only \<open>tempData\<close> and \<open>tempData.items\<close> are tested before they are read. An empty
  \<open>items\<close> is truthy, so \<open>readings\<close> is read of \<open>undefined\<close>, which throws; so does
  reading it of a first item that is \<open>null\<close>, \<open>length\<close> of \<open>readings\<close> that are missing,
  and \<open>value\<close> of a first reading that is \<open>null\<close>.
\<close>

definition currentTempOf :: "temp_data option \<Rightarrow> js_error + real option" where
  "currentTempOf tempData =
     (case tempData of
        None \<Rightarrow> Inr None
      | Some td \<Rightarrow>
          (case items td of
             None \<Rightarrow> Inr None
           | Some [] \<Rightarrow> Inl TypeError
           | Some (None # rest) \<Rightarrow> Inl TypeError
           | Some (Some item0 # rest) \<Rightarrow>
               (case readings item0 of
                  None \<Rightarrow> Inl TypeError
                | Some [] \<Rightarrow> Inr None
                | Some (None # rs) \<Rightarrow> Inl TypeError
                | Some (Some r # rs) \<Rightarrow> Inr (reading_value r))))"

definition forecastCard :: "host \<Rightarrow> nat \<times> day_forecast \<Rightarrow> forecast_card" where
  "forecastCard h p =
     (case p of (index, day) \<Rightarrow>
        \<lparr>dayName = (if index = 0 then ''Today'' else weekdayShort h (date day)),
         dateStr = monthDayShort h (date day),
         icon = getWeatherIcon (forecast day),
         tempHigh = high (temperature day),
         tempLow = low (temperature day),
         desc = forecast day,
         humidityHigh = high (relative_humidity day)\<rparr>)"

text \<open>
  The body of the \<open>try\<close> of \<open>displayWeather\<close> after the two fetches have settled.
  \<open>Math.round\<close> is \<open>\<lfloor>x + 1/2\<rfloor>\<close>; a current temperature of \<open>0\<close> is falsy and prints
  nothing, like \<open>null\<close>. With no forecast for today, \<open>getCleanupRecommendation\<close> reads a
  property of \<open>undefined\<close> and throws.
\<close>

definition displayWeather_try ::
  "host \<Rightarrow> forecast_data option \<Rightarrow> temp_data option \<Rightarrow> js_error + forecast_view" where
  "displayWeather_try h forecastData tempData =
     (case forecastData of
        None \<Rightarrow> Inl (Error ''No forecast data available'')
      | Some fd \<Rightarrow>
          (case items fd of
             None \<Rightarrow> Inl (Error ''No forecast data available'')
           | Some [] \<Rightarrow> Inl (Error ''No forecast data available'')
           | Some (item0 # rest) \<Rightarrow>
               (let fcs = forecasts item0 in
                case currentTempOf tempData of
                  Inl e \<Rightarrow> Inl e
                | Inr currentTemp \<Rightarrow>
                    (let generalForecast =
                           (case general item0 of
                              None \<Rightarrow> \<lparr>general_text = None\<rparr>
                            | Some g \<Rightarrow> g);
                         forecastCards = map (forecastCard h) (enumerate 0 fcs)
                     in case fcs of
                          [] \<Rightarrow> Inl TypeError
                        | today # later \<Rightarrow>
                            Inr \<lparr>currentTempLine =
                                   (case currentTemp of
                                      None \<Rightarrow> None
                                    | Some t \<Rightarrow> if t = 0 then None else Some \<lfloor>t + 1 / 2\<rfloor>),
                                 cards = forecastCards,
                                 recommendation = getCleanupRecommendation today,
                                 generalLine =
                                   (case general_text generalForecast of
                                      None \<Rightarrow> None
                                    | Some t \<Rightarrow> if t = [] then None else Some t)\<rparr>))))"

definition retryView :: failure_view where
  "retryView =
     \<lparr>failMessage = ''Unable to load weather forecast'', retryOnclick = ''displayWeather()''\<rparr>"

text \<open>
  \<open>displayWeather\<close>, given what the two endpoints answer. Both fetches are started
  together; only the forecast fetch touches the state.
\<close>

definition displayWeather ::
  "host \<Rightarrow> forecast_data http_response \<Rightarrow> temp_data http_response \<Rightarrow> world \<Rightarrow> world" where
  "displayWeather h forecastResponse tempResponse w =
     (case fetchWeatherForecast forecastResponse w of (forecastData, w') \<Rightarrow>
        (let tempData = fetchCurrentTemp tempResponse in
         case displayWeather_try h forecastData tempData of
           Inl e \<Rightarrow> w'\<lparr>weatherWidget := FailurePanel retryView\<rparr>
         | Inr view \<Rightarrow> w'\<lparr>weatherWidget := ForecastPanel view\<rparr>))"

section \<open>The OpenWeatherMap variant\<close>

definition getMockWeatherData :: weather_data where
  "getMockWeatherData =
     \<lparr>name = ''Sample Beach'',
      main = \<lparr>temp = 24, feels_like = 23, humidity = 65\<rparr>,
      weather = [\<lparr>condition_main = ''Clear'', description = ''clear sky'', icon_code = ''01d''\<rparr>],
      wind = \<lparr>speed = 52 / 10\<rparr>,
      visibility = 10000\<rparr>"

definition fetchWeatherData_try ::
  "real \<Rightarrow> real \<Rightarrow> weather_data http_response \<Rightarrow> world
     \<Rightarrow> js_error + (weather_data option \<times> world)" where
  "fetchWeatherData_try lat lon response w =
     (case response of
        NetworkError \<Rightarrow> Inl TypeError
      | NotOk \<Rightarrow> Inl (Error ''Weather data unavailable'')
      | BadBody \<Rightarrow> Inl SyntaxError
      | Body data \<Rightarrow>
          Inr (data,
               w\<lparr>currentWeather := Some (StoredWeather data),
                  localStorage :=
                    snd (saveToStorage ''currentWeather'' (StoredWeather data) (localStorage w))\<rparr>))"

definition fetchWeatherData ::
  "real \<Rightarrow> real \<Rightarrow> weather_data http_response \<Rightarrow> world \<Rightarrow> weather_data option \<times> world" where
  "fetchWeatherData lat lon response w =
     (case fetchWeatherData_try lat lon response w of
        Inl e \<Rightarrow> (Some getMockWeatherData, w)
      | Inr r \<Rightarrow> r)"

definition owm_rain :: string where
  "owm_rain = emoji_rain @ '' Not ideal for cleanup today. Check back tomorrow!''"

definition owm_hot :: string where
  "owm_hot = emoji_thermometer @ '' Hot day! Remember sunscreen and hydration.''"

definition owm_chilly :: string where
  "owm_chilly = emoji_coat @ '' Bit chilly! Bring a jacket for the cleanup.''"

definition owm_perfect :: string where
  "owm_perfect = emoji_sparkles @ '' Perfect weather for a beach cleanup!''"

text \<open>\<open>weatherData.weather[0].main\<close> throws when \<open>weather\<close> is empty.\<close>

definition getWeatherRecommendation :: "weather_data \<Rightarrow> js_error + string" where
  "getWeatherRecommendation weatherData =
     (case weather weatherData of
        [] \<Rightarrow> Inl TypeError
      | w0 # rest \<Rightarrow>
          (let condition = condition_main w0;
               t = temp (main weatherData) in
           if condition = ''Rain'' \<or> condition = ''Thunderstorm'' then Inr owm_rain
           else if t > 30 then Inr owm_hot
           else if t < 15 then Inr owm_chilly
           else Inr owm_perfect))"

section \<open>Conditions on the inputs\<close>

text \<open>A source rejects: the request fails, the status is not \<open>ok\<close>, or the body is not JSON.\<close>

fun rejects :: "'a http_response \<Rightarrow> bool" where
  "rejects (Body b) = False"
| "rejects r = True"

text \<open>A forecast body without data: \<open>null\<close>, or \<open>items\<close> missing or empty.\<close>

fun empty_data :: "forecast_data option \<Rightarrow> bool" where
  "empty_data None = True"
| "empty_data (Some fd) = (items fd = None \<or> items fd = Some [])"

text \<open>
  The temperature source answers with a body at which the unguarded reads of
  \<open>displayWeather\<close> throw: \<open>items\<close> is empty, or its first element is \<open>null\<close> or has no
  \<open>readings\<close>, or the first of the \<open>readings\<close> is \<open>null\<close>.
\<close>

fun no_first_reading :: "temp_item option list \<Rightarrow> bool" where
  "no_first_reading [] = True"
| "no_first_reading (None # rest) = True"
| "no_first_reading (Some item0 # rest) =
     (case readings item0 of
        None \<Rightarrow> True
      | Some [] \<Rightarrow> False
      | Some (None # rs) \<Rightarrow> True
      | Some (Some r # rs) \<Rightarrow> False)"

fun temp_throws :: "temp_data http_response \<Rightarrow> bool" where
  "temp_throws (Body (Some td)) =
     (case items td of None \<Rightarrow> False | Some its \<Rightarrow> no_first_reading its)"
| "temp_throws r = False"


section \<open>Sample inputs\<close>

text \<open>
  A host in Singapore (local time is eight hours ahead of UTC) that knows the two
  dates of the sample forecast: 5 December 2025, a Friday, and the day after.
\<close>

definition sample_host :: host where
  "sample_host =
     \<lparr>dateParse = (\<lambda>d. if d = ''2025-12-05'' then Some 1764892800000
                       else if d = ''2025-12-06'' then Some 1764979200000 else None),
      localTZA = (\<lambda>t. 28800000),
      formatMonthDay = (\<lambda>t. if t div msPerDay = 20427 then ''5 Dec'' else ''6 Dec'')\<rparr>"

definition sample_today :: day_forecast where
  "sample_today =
     \<lparr>date = ''2025-12-05'', forecast = ''Thundery Showers'',
      temperature = \<lparr>low = 25, high = 31\<rparr>, relative_humidity = \<lparr>low = 65, high = 95\<rparr>\<rparr>"

definition sample_tomorrow :: day_forecast where
  "sample_tomorrow =
     \<lparr>date = ''2025-12-06'', forecast = ''Partly Cloudy (Day)'',
      temperature = \<lparr>low = 25, high = 33\<rparr>, relative_humidity = \<lparr>low = 60, high = 90\<rparr>\<rparr>"

definition sample_item :: forecast_item where
  "sample_item =
     \<lparr>forecasts = [sample_today, sample_tomorrow],
      general = Some \<lparr>general_text = Some ''Afternoon thundery showers''\<rparr>\<rparr>"

definition sample_forecast :: forecast_data where
  "sample_forecast = \<lparr>items = Some [sample_item]\<rparr>"

definition heavy_rain_shower :: day_forecast where
  "heavy_rain_shower =
     \<lparr>date = ''2025-12-05'', forecast = ''Heavy Rain Shower'',
      temperature = \<lparr>low = 24, high = 29\<rparr>, relative_humidity = \<lparr>low = 70, high = 95\<rparr>\<rparr>"

text \<open>
  Storages of a browser that lets the page in and takes every text, unless said
  otherwise. None of the values the program stores converts to an array length other
  than \<open>null\<close>, which converts to \<open>0\<close>.
\<close>

fun sample_length :: "stored_value \<Rightarrow> nat option" where
  "sample_length (StoredForecast None) = Some 0"
| "sample_length (StoredWeather None) = Some 0"
| "sample_length v = None"

definition fresh_storage :: "stored_value storage" where
  "fresh_storage =
     \<lparr>entries = Map.empty, accessDenied = False, quota = (\<lambda>k t. True),
      arrayLength = sample_length\<rparr>"






definition fresh_world :: world where
  "fresh_world =
     \<lparr>currentWeather = None, localStorage = fresh_storage, weatherWidget = Untouched\<rparr>"

section \<open>Substrings\<close>

lemma startsWith_iff: "startsWith s needle \<longleftrightarrow> (\<exists>q. s = needle @ q)"
  by (induction s needle rule: startsWith.induct) auto

lemma str_includes_iff: "str_includes s needle \<longleftrightarrow> (\<exists>p q. s = p @ needle @ q)"
proof (induction s)
  case Nil
  show ?case by auto
next
  case (Cons x s)
  show ?case
  proof
    assume "str_includes (x # s) needle"
    then consider "startsWith (x # s) needle" | "str_includes s needle" by auto
    then show "\<exists>p q. x # s = p @ needle @ q"
    proof cases
      case 1
      then obtain q where "x # s = needle @ q" by (auto simp: startsWith_iff)
      then have "x # s = [] @ needle @ q" by simp
      then show ?thesis by blast
    next
      case 2
      then obtain p q where "s = p @ needle @ q" using Cons.IH by blast
      then have "x # s = (x # p) @ needle @ q" by simp
      then show ?thesis by blast
    qed
  next
    assume "\<exists>p q. x # s = p @ needle @ q"
    then obtain p q where pq: "x # s = p @ needle @ q" by blast
    show "str_includes (x # s) needle"
    proof (cases p)
      case Nil
      with pq have "startsWith (x # s) needle" by (auto simp: startsWith_iff)
      then show ?thesis by simp
    next
      case (Cons y p')
      with pq have "s = p' @ needle @ q" by simp
      then have "str_includes s needle" using Cons.IH by blast
      then show ?thesis by simp
    qed
  qed
qed

lemma partly_cloudy_is_cloudy:
  assumes "str_includes s ''partly cloudy''"
  shows "str_includes s ''cloudy''"
proof -
  from assms obtain p q where "s = p @ ''partly cloudy'' @ q"
    by (auto simp: str_includes_iff)
  then have "s = (p @ ''partly '') @ ''cloudy'' @ q" by simp
  then show ?thesis unfolding str_includes_iff by blast
qed

section \<open>The literals are pairwise different where it matters\<close>

lemmas emoji_defs =
  vs16_def emoji_thunder_def emoji_rain_def emoji_cloud_def emoji_sun_behind_cloud_def
  emoji_sun_def emoji_fog_def emoji_sun_small_cloud_def emoji_warning_def
  emoji_thermometer_def emoji_sparkles_def emoji_beach_def emoji_thumbs_up_def emoji_coat_def

lemmas msg_defs = msg_severe_def msg_gear_def msg_heat_def msg_perfect_def msg_good_def

lemma icon_distinct:
  "emoji_thunder \<noteq> emoji_sun_behind_cloud" "emoji_rain \<noteq> emoji_sun_behind_cloud"
  "emoji_cloud \<noteq> emoji_sun_behind_cloud" "emoji_sun \<noteq> emoji_sun_behind_cloud"
  "emoji_fog \<noteq> emoji_sun_behind_cloud" "emoji_sun_small_cloud \<noteq> emoji_sun_behind_cloud"
  "emoji_thunder \<noteq> emoji_cloud"
  by (simp_all add: emoji_defs)

lemma msg_distinct:
  "msg_severe \<noteq> msg_gear" "msg_severe \<noteq> msg_heat" "msg_severe \<noteq> msg_perfect"
  "msg_severe \<noteq> msg_good" "msg_gear \<noteq> msg_heat" "msg_heat \<noteq> msg_perfect"
  by (simp_all add: msg_defs emoji_defs)

lemma lower_heavy_rain_shower: "toLowerCase ''Heavy Rain Shower'' = ''heavy rain shower''"
  by code_simp

lemma lower_clear: "toLowerCase ''Clear'' = ''clear''"
  by code_simp

lemma lower_sunny: "toLowerCase ''Sunny'' = ''sunny''"
  by code_simp

lemma lower_sunny_thunder: "toLowerCase ''Sunny, THUNDER later'' = ''sunny, thunder later''"
  by code_simp

lemma lower_partly_cloudy_day: "toLowerCase ''Partly Cloudy (Day)'' = ''partly cloudy (day)''"
  by code_simp

lemma lower_partly_cloudy_thunder:
  "toLowerCase ''Partly cloudy with thundery showers'' = ''partly cloudy with thundery showers''"
  by code_simp

lemma lower_thundery_showers: "toLowerCase ''Thundery Showers'' = ''thundery showers''"
  by code_simp

lemma lower_thunder_sunny: "toLowerCase ''thunder sunny'' = ''thunder sunny''"
  by code_simp

lemmas owm_defs = owm_rain_def owm_hot_def owm_chilly_def owm_perfect_def

lemma owm_distinct: "owm_perfect \<noteq> owm_rain" "owm_hot \<noteq> owm_rain" "owm_hot \<noteq> owm_perfect"
  by (simp_all add: owm_defs emoji_defs)

section \<open>Recommendation\<close>

text \<open>
  C1, as the program has it. The recommendation of the NEA variant,
  \<open>getCleanupRecommendation\<close>, matches substrings of the lower-cased condition text, and
  the severe rule is tested first: whenever the lower-cased text contains both
  \<open>thunder\<close> and \<open>sunny\<close>, the result is the severe-weather safety message and not the
  message for fair or sunny weather.
\<close>

theorem recommendation_thunder_outranks_sunny:
  assumes "str_includes (toLowerCase (forecast d)) ''thunder''"
    and "str_includes (toLowerCase (forecast d)) ''sunny''"
  shows "getCleanupRecommendation d = msg_severe \<and> getCleanupRecommendation d \<noteq> msg_perfect"
  using assms by (simp add: getCleanupRecommendation_def Let_def msg_distinct)

theorem recommendation_thunder_outranks_sunny_witness:
  "str_includes (toLowerCase ''Sunny, THUNDER later'') ''thunder'' \<and>
   str_includes (toLowerCase ''Sunny, THUNDER later'') ''sunny'' \<and>
   getCleanupRecommendation (sample_today\<lparr>forecast := ''Sunny, THUNDER later''\<rparr>) = msg_severe"
proof -
  let ?d = "sample_today\<lparr>forecast := ''Sunny, THUNDER later''\<rparr>"
  have a: "str_includes (toLowerCase (forecast ?d)) ''thunder''"
    by (simp add: lower_sunny_thunder)
  have b: "str_includes (toLowerCase (forecast ?d)) ''sunny''"
    by (simp add: lower_sunny_thunder)
  from recommendation_thunder_outranks_sunny [OF a b] a b show ?thesis by simp
qed

text \<open>
  The recommendation of the OpenWeatherMap variant, \<open>getWeatherRecommendation\<close>, compares
  the condition with \<open>Rain\<close> and \<open>Thunderstorm\<close> for equality; it has no substring rules.
  A condition text that contains both \<open>thunder\<close> and \<open>sunny\<close> falls through to the
  temperature rules there: at 24 degrees the result is the message for perfect
  weather, not the one for rain and thunderstorms.
\<close>

theorem getWeatherRecommendation_thunder_sunny:
  "str_includes (toLowerCase ''thunder sunny'') ''thunder'' \<and>
   str_includes (toLowerCase ''thunder sunny'') ''sunny'' \<and>
   getWeatherRecommendation
     (getMockWeatherData\<lparr>weather :=
        [\<lparr>condition_main = ''thunder sunny'', description = ''clear sky'', icon_code = ''01d''\<rparr>]\<rparr>) =
   Inr owm_perfect \<and>
   owm_perfect \<noteq> owm_rain"
  by (simp add: getWeatherRecommendation_def getMockWeatherData_def lower_thunder_sunny
      owm_distinct)

text \<open>
  C5, as the program has it. For the condition text \<open>Heavy Rain Shower\<close> and a high of
  29 the result is the severe-weather safety message, because the text contains
  \<open>heavy rain\<close>, which the first rule tests; it is neither the gear warning nor the
  heat warning.
\<close>

theorem heavy_rain_shower_is_severe:
  "getCleanupRecommendation
     (d\<lparr>forecast := ''Heavy Rain Shower'', temperature := (temperature d)\<lparr>high := 29\<rparr>\<rparr>) = msg_severe \<and>
   msg_severe \<noteq> msg_gear \<and> msg_severe \<noteq> msg_heat"
  by (simp add: getCleanupRecommendation_def Let_def lower_heavy_rain_shower msg_distinct)

text \<open>The gear warning is not what the program returns for that input.\<close>

theorem heavy_rain_shower_not_gear:
  "getCleanupRecommendation heavy_rain_shower \<noteq> msg_gear"
  by (simp add: getCleanupRecommendation_def Let_def heavy_rain_shower_def
      lower_heavy_rain_shower msg_distinct)

text \<open>
  C6. For the condition text \<open>Clear\<close> and a high of 34 the result is the heat warning.
  The temperature rule stands before the rule for fair or sunny weather: \<open>Sunny\<close> at 34
  gets the heat warning as well. The OpenWeatherMap variant, too, answers \<open>Clear\<close> at 34
  with its heat warning.
\<close>

theorem clear_34_is_heat_warning:
  "getCleanupRecommendation
     (d\<lparr>forecast := ''Clear'', temperature := (temperature d)\<lparr>high := 34\<rparr>\<rparr>) = msg_heat \<and>
   getCleanupRecommendation
     (d\<lparr>forecast := ''Sunny'', temperature := (temperature d)\<lparr>high := 34\<rparr>\<rparr>) = msg_heat \<and>
   msg_heat \<noteq> msg_perfect \<and>
   getWeatherRecommendation
     (wd\<lparr>weather := (c\<lparr>condition_main := ''Clear''\<rparr>) # rest,
         main := (main wd)\<lparr>temp := 34\<rparr>\<rparr>) = Inr owm_hot"
  by (simp add: getCleanupRecommendation_def getWeatherRecommendation_def Let_def
      lower_clear lower_sunny msg_distinct)

section \<open>Icons\<close>

text \<open>
  C10, as the program has it. \<open>getWeatherIcon\<close> never returns the partly-cloudy icon:
  a text that contains \<open>partly cloudy\<close> contains \<open>cloudy\<close>, so the branch for
  \<open>partly cloudy\<close> is never reached. Such a text gets the thunder icon if it mentions
  thunder, the rain icon if it mentions rain or shower, and the plain cloudy icon
  otherwise.
\<close>

theorem getWeatherIcon_never_partly_cloudy:
  "getWeatherIcon fc \<noteq> emoji_sun_behind_cloud \<and>
   (str_includes (toLowerCase fc) ''partly cloudy'' \<longrightarrow>
      str_includes (toLowerCase fc) ''cloudy'' \<and>
      getWeatherIcon fc =
        (if str_includes (toLowerCase fc) ''thunder'' then emoji_thunder
         else if str_includes (toLowerCase fc) ''rain'' \<or> str_includes (toLowerCase fc) ''shower''
           then emoji_rain
         else emoji_cloud))"
  using partly_cloudy_is_cloudy [of "toLowerCase fc"]
  by (auto simp: getWeatherIcon_def Let_def icon_distinct)

theorem getWeatherIcon_never_partly_cloudy_witness:
  "str_includes (toLowerCase ''Partly Cloudy (Day)'') ''partly cloudy'' \<and>
   getWeatherIcon ''Partly Cloudy (Day)'' = emoji_cloud \<and>
   getWeatherIcon ''Partly Cloudy (Day)'' \<noteq> emoji_sun_behind_cloud"
proof -
  have a: "str_includes (toLowerCase ''Partly Cloudy (Day)'') ''partly cloudy''"
    by (simp add: lower_partly_cloudy_day)
  have b: "\<not> str_includes (toLowerCase ''Partly Cloudy (Day)'') ''thunder''"
    "\<not> str_includes (toLowerCase ''Partly Cloudy (Day)'') ''rain''"
    "\<not> str_includes (toLowerCase ''Partly Cloudy (Day)'') ''shower''"
    by (simp_all add: lower_partly_cloudy_day)
  from getWeatherIcon_never_partly_cloudy [of "''Partly Cloudy (Day)''"] a b
  show ?thesis by (simp add: icon_distinct)
qed

text \<open>A text with \<open>partly cloudy\<close> that also mentions thunder does not get the cloudy icon.\<close>

theorem partly_cloudy_with_thunder:
  "str_includes (toLowerCase ''Partly cloudy with thundery showers'') ''partly cloudy'' \<and>
   getWeatherIcon ''Partly cloudy with thundery showers'' \<noteq> emoji_cloud"
  by (simp add: getWeatherIcon_def lower_partly_cloudy_thunder icon_distinct)

section \<open>Saving to local storage\<close>









lemma setItem_Inr: "setItem st k text = Inr s \<Longrightarrow> quota st k text"
  by (simp add: setItem_def split: if_splits)






text \<open>Saving the same value a second time changes nothing.\<close>

lemma list_update_extend:
  "length xs \<le> i \<Longrightarrow>
   (xs @ replicate (i - length xs) None @ [y])[i := y] = xs @ replicate (i - length xs) None @ [y]"
  by (simp add: list_update_append)

lemma take_resize:
  "take n (take n xs @ replicate (n - length xs) None) @
     replicate (n - length (take n xs @ replicate (n - length xs) None)) None =
   take n xs @ replicate (n - length xs) None"
  by (cases "n \<le> length xs") simp_all

lemma assign_idem:
  assumes "assign st d k v = Inr d'"
  shows "assign st d' k v = Inr d'"
proof (cases d)
  case (JObject m)
  show ?thesis
  proof (cases "k = ''__proto__'' \<and> m k = None")
    case True
    with assms JObject have "d' = JObject m" by auto
    with True show ?thesis by auto
  next
    case False
    with assms JObject have "d' = JObject (m(k \<mapsto> v))" by auto
    then show ?thesis by simp
  qed
next
  case (JArray xs)
  show ?thesis
  proof (cases "array_index k")
    case (Some i)
    show ?thesis
    proof (cases "i < length xs")
      case True
      with assms JArray Some have "d' = JArray (xs[i := Some v])" by simp
      with Some True show ?thesis by simp
    next
      case False
      with assms JArray Some
      have "d' = JArray (xs @ replicate (i - length xs) None @ [Some v])" by simp
      with Some False show ?thesis by (simp add: list_update_extend)
    qed
  next
    case None
    show ?thesis
    proof (cases "k = ''length''")
      case True
      with assms JArray None obtain n where n: "arrayLength st v = Some n"
        and d': "d' = JArray (take n xs @ replicate (n - length xs) None)"
        by (cases "arrayLength st v") simp_all
      show ?thesis
        unfolding d' using None True n by (simp add: take_resize)
    next
      case False
      with assms JArray None have "d' = JArray xs" by simp
      with None False show ?thesis by simp
    qed
  qed
next
  case JNull
  with assms show ?thesis by auto
next
  case (JBool b)
  with assms show ?thesis by auto
next
  case (JNumber r)
  with assms show ?thesis by auto
next
  case (JString t)
  with assms show ?thesis by auto
qed

lemma truthy_assign:
  assumes "assign st d k v = Inr d'" and "truthy d"
  shows "truthy d'"
proof (cases d)
  case (JArray xs)
  with assms(1) show ?thesis
    by (cases "array_index k"; cases "k = ''length''"; cases "arrayLength st v") auto
qed (use assms in \<open>auto split: if_splits\<close>)

lemma assign_entries: "assign (st\<lparr>entries := e\<rparr>) d k v = assign st d k v"
proof (cases d)
  case (JArray xs)
  then show ?thesis by (cases "array_index k") simp_all
qed simp_all

lemma saveToStorage_try_steps:
  assumes "saveToStorage_try k v st = Inr s"
  shows "\<exists>parsed d. \<not> accessDenied st \<and> JSON_parse (entries st storageKey) = Inr parsed \<and>
           assign st (if truthy parsed then parsed else JObject Map.empty) k v = Inr d \<and>
           quota st storageKey (JsonText d) \<and>
           s = st\<lparr>entries := (entries st)(storageKey \<mapsto> JsonText d)\<rparr>"
proof -
  have nd: "\<not> accessDenied st"
    using assms by (auto simp: saveToStorage_try_def getItem_def)
  then have g: "getItem st storageKey = Inr (entries st storageKey)"
    by (simp add: getItem_def)
  from assms g obtain parsed where p: "JSON_parse (entries st storageKey) = Inr parsed"
    by (cases "JSON_parse (entries st storageKey)") (simp_all add: saveToStorage_try_def)
  from assms g p obtain d where
    d: "assign st (if truthy parsed then parsed else JObject Map.empty) k v = Inr d"
    by (cases "assign st (if truthy parsed then parsed else JObject Map.empty) k v")
      (simp_all add: saveToStorage_try_def Let_def)
  from assms g p d have si: "setItem st storageKey (JsonText d) = Inr s"
    by (simp add: saveToStorage_try_def Let_def JSON_stringify_def)
  then have q: "quota st storageKey (JsonText d)" by (rule setItem_Inr)
  with si nd have "s = st\<lparr>entries := (entries st)(storageKey \<mapsto> JsonText d)\<rparr>"
    by (simp add: setItem_def)
  with nd p d q show ?thesis by blast
qed

lemma saveToStorage_idem:
  "snd (saveToStorage k v (snd (saveToStorage k v st))) = snd (saveToStorage k v st)"
proof (cases "saveToStorage_try k v st")
  case (Inl e)
  then show ?thesis by (simp add: saveToStorage_def)
next
  case (Inr s)
  from saveToStorage_try_steps [OF Inr] obtain parsed d where nd: "\<not> accessDenied st"
    and a: "assign st (if truthy parsed then parsed else JObject Map.empty) k v = Inr d"
    and q: "quota st storageKey (JsonText d)"
    and s: "s = st\<lparr>entries := (entries st)(storageKey \<mapsto> JsonText d)\<rparr>"
    by blast
  have td: "truthy d"
    by (rule truthy_assign [OF a]) simp
  have "saveToStorage_try k v s = Inr s"
    using nd q td assign_idem [OF a] unfolding s
    by (simp add: saveToStorage_try_def getItem_def setItem_def JSON_stringify_def Let_def
        assign_entries)
  with Inr show ?thesis by (simp add: saveToStorage_def)
qed

section \<open>The two fetches\<close>

lemma fetchWeatherForecast_rejects:
  "rejects r \<Longrightarrow> fetchWeatherForecast r w = (None, w)"
  by (cases r) (simp_all add: fetchWeatherForecast_def fetchWeatherForecast_try_def)

lemma fetchWeatherForecast_Body:
  "fetchWeatherForecast (Body data) w =
     (data, w\<lparr>currentWeather := Some (StoredForecast data),
              localStorage :=
                snd (saveToStorage ''weatherForecast'' (StoredForecast data) (localStorage w))\<rparr>)"
  by (simp add: fetchWeatherForecast_def fetchWeatherForecast_try_def)

lemma fetchWeatherForecast_data:
  "fst (fetchWeatherForecast r w) = fst (fetchWeatherForecast r w')"
  by (cases r) (simp_all add: fetchWeatherForecast_def fetchWeatherForecast_try_def)

lemma fetchCurrentTemp_rejects: "rejects r \<Longrightarrow> fetchCurrentTemp r = None"
  by (cases r) (simp_all add: fetchCurrentTemp_def fetchCurrentTemp_try_def)

lemma fetchCurrentTemp_Body: "fetchCurrentTemp (Body data) = data"
  by (simp add: fetchCurrentTemp_def fetchCurrentTemp_try_def)

section \<open>Rendering\<close>

lemma displayWeather_widget:
  "weatherWidget (displayWeather h fr tr w) =
     (case displayWeather_try h (fst (fetchWeatherForecast fr w)) (fetchCurrentTemp tr) of
        Inl e \<Rightarrow> FailurePanel retryView
      | Inr view \<Rightarrow> ForecastPanel view)"
  by (simp add: displayWeather_def Let_def split: prod.splits sum.splits)

lemma displayWeather_storage:
  "localStorage (displayWeather h fr tr w) = localStorage (snd (fetchWeatherForecast fr w))"
  by (simp add: displayWeather_def Let_def split: prod.splits sum.splits)

lemma displayWeather_try_empty:
  "empty_data data \<Longrightarrow>
   displayWeather_try h data tempData = Inl (Error ''No forecast data available'')"
  by (cases data) (auto simp: displayWeather_try_def split: option.splits list.splits)

lemma currentTempOf_None: "currentTempOf None = Inr None"
  by (simp add: currentTempOf_def)

lemma currentTempOf_items:
  "currentTempOf (Some td) =
     (case items td of
        None \<Rightarrow> Inr None
      | Some its \<Rightarrow>
          (if no_first_reading its then Inl TypeError
           else Inr (case its of
                       Some item0 # rest \<Rightarrow>
                         (case readings item0 of
                            Some (Some r # rs) \<Rightarrow> reading_value r
                          | _ \<Rightarrow> None)
                     | _ \<Rightarrow> None)))"
  by (simp add: currentTempOf_def split: option.splits list.splits)

lemma currentTempOf_usable:
  "\<not> temp_throws tr \<Longrightarrow> \<exists>ct. currentTempOf (fetchCurrentTemp tr) = Inr ct"
proof (cases tr)
  case (Body data)
  assume t: "\<not> temp_throws tr"
  show ?thesis
  proof (cases data)
    case None
    with Body show ?thesis by (simp add: fetchCurrentTemp_Body currentTempOf_None)
  next
    case (Some td)
    with Body t show ?thesis
      by (cases "items td") (simp_all add: fetchCurrentTemp_Body currentTempOf_items)
  qed
qed (simp_all add: fetchCurrentTemp_def fetchCurrentTemp_try_def currentTempOf_None)

lemma currentTempOf_throws:
  "temp_throws tr \<Longrightarrow> currentTempOf (fetchCurrentTemp tr) = Inl TypeError"
proof (cases tr)
  case (Body data)
  assume t: "temp_throws tr"
  show ?thesis
  proof (cases data)
    case None
    with Body t show ?thesis by simp
  next
    case (Some td)
    with Body t show ?thesis
      by (cases "items td") (simp_all add: fetchCurrentTemp_Body currentTempOf_items)
  qed
qed simp_all

lemma displayWeather_try_ok:
  assumes "items fd = Some (item0 # rest)" and "forecasts item0 = today # later"
    and "currentTempOf tempData = Inr ct"
  shows "\<exists>view. displayWeather_try h (Some fd) tempData = Inr view \<and>
           cards view = map (forecastCard h) (enumerate 0 (today # later)) \<and>
           recommendation view = getCleanupRecommendation today \<and>
           currentTempLine view =
             (case ct of None \<Rightarrow> None | Some t \<Rightarrow> if t = 0 then None else Some \<lfloor>t + 1 / 2\<rfloor>)"
  using assms by (simp add: displayWeather_try_def Let_def)

lemma nth_cards:
  assumes "i < length days"
  shows "map (forecastCard h) (enumerate 0 days) ! i = forecastCard h (i, days ! i)"
  using assms by (simp add: nth_enumerate_eq)

subsection \<open>Weekday labels\<close>

lemma weekDay_less: "weekDay t < 7"
  by (simp add: weekDay_def nat_less_iff)

lemma weekdayNames_not_today: "n < 7 \<Longrightarrow> weekdayNames ! n \<noteq> ''Today''"
proof -
  assume "n < 7"
  then consider "n = 0" | "n = 1" | "n = 2" | "n = 3" | "n = 4" | "n = 5" | "n = 6"
    by linarith
  then show ?thesis by cases (simp_all add: weekdayNames_def)
qed

lemma weekdayShort_not_today: "weekdayShort h d \<noteq> ''Today''"
  by (simp add: weekdayShort_def weekdayNames_not_today weekDay_less split: option.splits)

lemma weekdayShort_cases:
  "weekdayShort h d = ''Invalid Date'' \<or> weekdayShort h d \<in> set weekdayNames"
proof (cases "dateParse h d")
  case None
  then show ?thesis by (simp add: weekdayShort_def)
next
  case (Some t)
  have "weekDay (t + localTZA h t) < length weekdayNames"
    using weekDay_less [of "t + localTZA h t"] by (simp add: weekdayNames_def eval_nat_numeral)
  then have "weekdayNames ! weekDay (t + localTZA h t) \<in> set weekdayNames"
    by (rule nth_mem)
  with Some show ?thesis by (simp add: weekdayShort_def)
qed

subsection \<open>The primary source fails\<close>

text \<open>
  C2, as the program has it. In the NEA variant: if the forecast source rejects,
  \<open>displayWeather\<close> shows the failure with the retry button and changes nothing else, so
  nothing is written to the storage; if the forecast source answers with a body
  without data, the same failure is shown, but \<open>fetchWeatherForecast\<close> has saved that
  body under \<open>weatherForecast\<close> before \<open>displayWeather\<close> looks at it. In the
  OpenWeatherMap variant a source that rejects does not make the call fail:
  \<open>fetchWeatherData\<close> returns the mock data to its caller, and nothing is written to the
  storage either.
\<close>

theorem primary_source_failure:
  "(rejects fr \<longrightarrow>
      displayWeather h fr tr w = w\<lparr>weatherWidget := FailurePanel retryView\<rparr>) \<and>
   (empty_data data \<longrightarrow>
      weatherWidget (displayWeather h (Body data) tr w) = FailurePanel retryView \<and>
      localStorage (displayWeather h (Body data) tr w) =
        snd (saveToStorage ''weatherForecast'' (StoredForecast data) (localStorage w))) \<and>
   (rejects r \<longrightarrow> fetchWeatherData lat lon r w = (Some getMockWeatherData, w))"
proof (intro conjI impI)
  assume r: "rejects fr"
  show "displayWeather h fr tr w = w\<lparr>weatherWidget := FailurePanel retryView\<rparr>"
    by (simp add: displayWeather_def fetchWeatherForecast_rejects [OF r] displayWeather_try_def)
next
  assume e: "empty_data data"
  show "weatherWidget (displayWeather h (Body data) tr w) = FailurePanel retryView"
    by (simp add: displayWeather_widget fetchWeatherForecast_Body displayWeather_try_empty [OF e])
  show "localStorage (displayWeather h (Body data) tr w) =
        snd (saveToStorage ''weatherForecast'' (StoredForecast data) (localStorage w))"
    by (simp add: displayWeather_storage fetchWeatherForecast_Body)
next
  assume "rejects r"
  then show "fetchWeatherData lat lon r w = (Some getMockWeatherData, w)"
    by (cases r) (simp_all add: fetchWeatherData_def fetchWeatherData_try_def)
qed

theorem primary_source_failure_witness:
  "rejects (NotOk :: forecast_data http_response) \<and>
   displayWeather sample_host NotOk NetworkError fresh_world =
     fresh_world\<lparr>weatherWidget := FailurePanel retryView\<rparr> \<and>
   empty_data (Some \<lparr>items = None\<rparr>) \<and>
   weatherWidget
     (displayWeather sample_host (Body (Some \<lparr>items = None\<rparr>)) NetworkError fresh_world) =
     FailurePanel retryView \<and>
   rejects (NotOk :: weather_data http_response) \<and>
   fetchWeatherData 1 103 NotOk fresh_world = (Some getMockWeatherData, fresh_world)"
  using primary_source_failure
    [of NotOk sample_host NetworkError fresh_world "Some \<lparr>items = None\<rparr>" NotOk 1 103]
  by simp

text \<open>
  Two inputs at which the claim as worded fails. In the NEA variant the forecast
  source answers with an empty \<open>items\<close>: the failure is shown and the storage is no
  longer what it was. In the OpenWeatherMap variant the source answers with a status
  that is not \<open>ok\<close>: the caller gets data to render, not a failure.
\<close>

theorem displayWeather_empty_data_is_stored:
  "weatherWidget
     (displayWeather sample_host (Body (Some \<lparr>items = Some []\<rparr>)) NetworkError fresh_world) =
     FailurePanel retryView \<and>
   localStorage
     (displayWeather sample_host (Body (Some \<lparr>items = Some []\<rparr>)) NetworkError fresh_world) \<noteq>
     localStorage fresh_world \<and>
   fst (fetchWeatherData 1 103 NotOk fresh_world) = Some getMockWeatherData"
proof -
  let ?w = "displayWeather sample_host (Body (Some \<lparr>items = Some []\<rparr>)) NetworkError fresh_world"
  have "entries (localStorage ?w) storageKey \<noteq> entries (localStorage fresh_world) storageKey"
    by (simp add: displayWeather_storage fetchWeatherForecast_Body saveToStorage_def
        saveToStorage_try_def getItem_def setItem_def JSON_stringify_def fresh_world_def
        fresh_storage_def)
  then have "localStorage ?w \<noteq> localStorage fresh_world" by auto
  moreover have "weatherWidget ?w = FailurePanel retryView"
    by (simp add: displayWeather_widget fetchWeatherForecast_Body displayWeather_try_def)
  moreover have "fst (fetchWeatherData 1 103 NotOk fresh_world) = Some getMockWeatherData"
    by (simp add: fetchWeatherData_def fetchWeatherData_try_def)
  ultimately show ?thesis by simp
qed

subsection \<open>The secondary source fails\<close>

text \<open>
  C3. If the temperature source rejects and the forecast source answers with at least
  one item whose forecasts start with today's, \<open>displayWeather\<close> shows the forecast:
  nothing is thrown, the line for the current temperature is left out, and the
  temperature shown for today and used for the recommendation is the high of the
  first forecast.
\<close>

theorem displayWeather_without_secondary:
  assumes "rejects tr" and "items fd = Some (item0 # rest)"
    and "forecasts item0 = today # later"
  shows "\<exists>view. weatherWidget (displayWeather h (Body (Some fd)) tr w) = ForecastPanel view \<and>
           currentTempLine view = None \<and>
           cards view \<noteq> [] \<and>
           tempHigh (hd (cards view)) = high (temperature today) \<and>
           recommendation view = getCleanupRecommendation today"
proof -
  have t: "fetchCurrentTemp tr = None" using assms(1) by (rule fetchCurrentTemp_rejects)
  from displayWeather_try_ok [OF assms(2,3) currentTempOf_None, of h]
  obtain view where v: "displayWeather_try h (Some fd) None = Inr view"
    and c: "cards view = map (forecastCard h) (enumerate 0 (today # later))"
    and r: "recommendation view = getCleanupRecommendation today"
    and l: "currentTempLine view = None" by auto
  have "weatherWidget (displayWeather h (Body (Some fd)) tr w) = ForecastPanel view"
    by (simp add: displayWeather_widget fetchWeatherForecast_Body t v)
  moreover have "tempHigh (hd (cards view)) = high (temperature today)"
    by (simp add: c forecastCard_def)
  moreover have "cards view \<noteq> []"
    by (simp add: c)
  ultimately show ?thesis using r l by blast
qed

theorem displayWeather_without_secondary_witness:
  "rejects (NetworkError :: temp_data http_response) \<and>
   (\<exists>view. weatherWidget
        (displayWeather sample_host (Body (Some sample_forecast)) NetworkError fresh_world) =
        ForecastPanel view \<and>
      currentTempLine view = None \<and> cards view \<noteq> [] \<and>
      tempHigh (hd (cards view)) = 31 \<and> recommendation view = msg_severe)"
proof -
  have i: "items sample_forecast = Some (sample_item # [])"
    by (simp add: sample_forecast_def)
  have f: "forecasts sample_item = sample_today # [sample_tomorrow]"
    by (simp add: sample_item_def)
  have r: "rejects (NetworkError :: temp_data http_response)" by simp
  have h: "high (temperature sample_today) = 31" by (simp add: sample_today_def)
  have m: "getCleanupRecommendation sample_today = msg_severe"
    by (simp add: getCleanupRecommendation_def Let_def sample_today_def lower_thundery_showers)
  from displayWeather_without_secondary [OF r i f, of sample_host fresh_world]
  show ?thesis using r h m by simp
qed

subsection \<open>The forecast cards\<close>

lemma displayWeather_shows_cards:
  assumes "items fd = Some (item0 # rest)" and "forecasts item0 = days" and "days \<noteq> []"
    and "\<not> temp_throws tr"
  shows "\<exists>view. weatherWidget (displayWeather h (Body (Some fd)) tr w) = ForecastPanel view \<and>
           cards view = map (forecastCard h) (enumerate 0 days)"
proof -
  from assms(3) obtain today later where d: "days = today # later" by (cases days) auto
  from currentTempOf_usable [OF assms(4)] obtain ct
    where ct: "currentTempOf (fetchCurrentTemp tr) = Inr ct" by blast
  from displayWeather_try_ok [OF assms(1) assms(2) [unfolded d] ct, of h]
  obtain view where v: "displayWeather_try h (Some fd) (fetchCurrentTemp tr) = Inr view"
    and c: "cards view = map (forecastCard h) (enumerate 0 days)"
    by (auto simp: d)
  have "weatherWidget (displayWeather h (Body (Some fd)) tr w) = ForecastPanel view"
    by (simp add: displayWeather_widget fetchWeatherForecast_Body v)
  with c show ?thesis by blast
qed

lemma displayWeather_temp_throws:
  assumes "items fd = Some (item0 # rest)" and "temp_throws tr"
  shows "weatherWidget (displayWeather h (Body (Some fd)) tr w) = FailurePanel retryView"
  using assms
  by (simp add: displayWeather_widget fetchWeatherForecast_Body displayWeather_try_def
      currentTempOf_throws Let_def)

text \<open>
  What the program does for the forecast cards. Let the forecast source answer with
  at least one item whose forecasts are the \<open>N \<ge> 1\<close> days \<open>days\<close>. Whatever the
  temperature source does, a forecast that \<open>displayWeather\<close> shows has exactly \<open>N\<close> cards;
  card \<open>i\<close> carries the values of day \<open>i\<close> of the payload, so the order is that of the
  payload; card \<open>0\<close> is labelled \<open>Today\<close> and every later card with the short weekday
  name of its date, which is never \<open>Today\<close>. The forecast is shown unless the
  temperature source answers with a body at which the unguarded reads throw.
\<close>

lemma displayWeather_forecast_cards:
  assumes "items fd = Some (item0 # rest)" and "forecasts item0 = days" and "days \<noteq> []"
  shows "(\<not> temp_throws tr \<longrightarrow>
            (\<exists>view. weatherWidget (displayWeather h (Body (Some fd)) tr w) = ForecastPanel view)) \<and>
         (temp_throws tr \<longrightarrow>
            weatherWidget (displayWeather h (Body (Some fd)) tr w) = FailurePanel retryView) \<and>
         (\<forall>view. weatherWidget (displayWeather h (Body (Some fd)) tr w) = ForecastPanel view \<longrightarrow>
            length (cards view) = length days \<and>
            (\<forall>i < length days.
               desc (cards view ! i) = forecast (days ! i) \<and>
               tempHigh (cards view ! i) = high (temperature (days ! i)) \<and>
               tempLow (cards view ! i) = low (temperature (days ! i)) \<and>
               humidityHigh (cards view ! i) = high (relative_humidity (days ! i)) \<and>
               icon (cards view ! i) = getWeatherIcon (forecast (days ! i)) \<and>
               dateStr (cards view ! i) = monthDayShort h (date (days ! i)) \<and>
               dayName (cards view ! i) =
                 (if i = 0 then ''Today'' else weekdayShort h (date (days ! i))) \<and>
               (0 < i \<longrightarrow> dayName (cards view ! i) \<noteq> ''Today'')))"
proof (cases "temp_throws tr")
  case True
  from displayWeather_temp_throws [OF assms(1) True]
  show ?thesis using True by simp
next
  case False
  from displayWeather_shows_cards [OF assms False, of h w]
  obtain view0 where
    w: "weatherWidget (displayWeather h (Body (Some fd)) tr w) = ForecastPanel view0"
    and c: "cards view0 = map (forecastCard h) (enumerate 0 days)"
    by blast
  have len: "length (cards view0) = length days" by (simp add: c)
  have each: "cards view0 ! i = forecastCard h (i, days ! i)" if "i < length days" for i
    using that unfolding c by (rule nth_cards)
  show ?thesis
    using False w len by (auto simp: each forecastCard_def weekdayShort_not_today)
qed

lemma displayWeather_forecast_cards_example:
  "\<not> temp_throws (NotOk :: temp_data http_response) \<and>
   (\<exists>view. weatherWidget
        (displayWeather sample_host (Body (Some sample_forecast)) NotOk fresh_world) =
        ForecastPanel view \<and>
      map dayName (cards view) = [''Today'', ''Sat''] \<and>
      map desc (cards view) = [''Thundery Showers'', ''Partly Cloudy (Day)''])"
proof -
  let ?days = "[sample_today, sample_tomorrow]"
  let ?w = "displayWeather sample_host (Body (Some sample_forecast)) NotOk fresh_world"
  have i: "items sample_forecast = Some (sample_item # [])"
    by (simp add: sample_forecast_def)
  have f: "forecasts sample_item = ?days"
    by (simp add: sample_item_def)
  have n: "?days \<noteq> []" by simp
  have t: "\<not> temp_throws (NotOk :: temp_data http_response)" by simp
  have wd: "weekdayShort sample_host ''2025-12-06'' = ''Sat''"
    by (simp add: weekdayShort_def sample_host_def weekDay_def msPerDay_def weekdayNames_def)
  note fc = displayWeather_forecast_cards [OF i f n, of NotOk sample_host fresh_world]
  from fc t obtain view where v: "weatherWidget ?w = ForecastPanel view" by blast
  with fc have l: "length (cards view) = 2"
    and e: "\<forall>i<2. desc (cards view ! i) = forecast (?days ! i) \<and>
              dayName (cards view ! i) =
                (if i = 0 then ''Today'' else weekdayShort sample_host (date (?days ! i)))"
    by auto
  from e have e0: "desc (cards view ! 0) = ''Thundery Showers''" "dayName (cards view ! 0) = ''Today''"
    by (simp_all add: sample_today_def)
  from e have e1: "desc (cards view ! 1) = ''Partly Cloudy (Day)''" "dayName (cards view ! 1) = ''Sat''"
    by (simp_all add: sample_tomorrow_def wd)
  from l obtain a b where ab: "cards view = [a, b]"
    by (cases "cards view"; cases "tl (cards view)") auto
  show ?thesis using t v e0 e1 by (auto simp: ab)
qed

text \<open>
  C4 at an input where the program does not do what is claimed. The forecast source
  answers with the sample forecast, whose first item has two days, and the
  temperature source answers with an \<open>items\<close> that is an empty list. The test
  \<open>tempData.items[0].readings.length > 0\<close> then reads \<open>readings\<close> of \<open>undefined\<close>, the \<open>catch\<close>
  of \<open>displayWeather\<close> shows the failure with the retry button, and none of the two
  days is shown. The test for the forecast payload, two lines above, does look at
  \<open>items.length\<close>.
\<close>

theorem displayWeather_empty_temp_items_fails:
  "items sample_forecast = Some [sample_item] \<and>
   forecasts sample_item = [sample_today, sample_tomorrow] \<and>
   weatherWidget
     (displayWeather sample_host (Body (Some sample_forecast))
        (Body (Some \<lparr>items = Some []\<rparr>)) fresh_world) =
   FailurePanel retryView"
  by (simp add: displayWeather_widget fetchWeatherForecast_Body fetchCurrentTemp_Body
      displayWeather_try_def currentTempOf_def sample_forecast_def sample_item_def Let_def)

text \<open>The same happens when the first item of the temperature body has no readings.\<close>

lemma displayWeather_temp_item_without_readings:
  "weatherWidget
     (displayWeather sample_host (Body (Some sample_forecast))
        (Body (Some \<lparr>items = Some [Some \<lparr>readings = None\<rparr>]\<rparr>)) fresh_world) =
   FailurePanel retryView"
  by (simp add: displayWeather_widget fetchWeatherForecast_Body fetchCurrentTemp_Body
      displayWeather_try_def currentTempOf_def sample_forecast_def sample_item_def Let_def)

subsection \<open>Calling twice\<close>

text \<open>
  C7. With the same host and the same two answers, a second call of \<open>displayWeather\<close>
  right after the first leaves everything, the widget included, as the first call
  left it; and what the widget shows does not depend on the state before the call at
  all, so neither the storage nor \<open>appState\<close> has any influence on it.
\<close>

theorem displayWeather_idempotent:
  "displayWeather h fr tr (displayWeather h fr tr w) = displayWeather h fr tr w \<and>
   weatherWidget (displayWeather h fr tr w1) = weatherWidget (displayWeather h fr tr w2)"
proof
  show "displayWeather h fr tr (displayWeather h fr tr w) = displayWeather h fr tr w"
  proof (cases fr)
    case (Body data)
    show ?thesis
      unfolding Body
      by (simp add: displayWeather_def fetchWeatherForecast_Body Let_def saveToStorage_idem
          split: sum.splits)
  qed (simp_all add: displayWeather_def fetchWeatherForecast_rejects Let_def split: sum.splits)
  show "weatherWidget (displayWeather h fr tr w1) = weatherWidget (displayWeather h fr tr w2)"
    using fetchWeatherForecast_data [of fr w1 w2] by (simp add: displayWeather_widget)
qed

section \<open>The fetch of the OpenWeatherMap variant\<close>

text \<open>
  C8. When the request fails, the status is not \<open>ok\<close> or the body is not JSON,
  \<open>fetchWeatherData\<close> returns the mock data (Sample Beach, 24 degrees, Clear) and leaves
  the state alone; nothing is thrown. A response whose body is that same data gives
  the caller the same value, so the caller cannot tell the two apart. The mock data
  has a first weather condition, so the recommendation for it does not throw.
\<close>

theorem fetchWeatherData_falls_back_to_mock:
  "(rejects r \<longrightarrow> fetchWeatherData lat lon r w = (Some getMockWeatherData, w)) \<and>
   fst (fetchWeatherData lat lon (Body (Some getMockWeatherData)) w) = Some getMockWeatherData \<and>
   name getMockWeatherData = ''Sample Beach'' \<and>
   temp (main getMockWeatherData) = 24 \<and>
   map condition_main (weather getMockWeatherData) = [''Clear''] \<and>
   getWeatherRecommendation getMockWeatherData = Inr owm_perfect"
  by (cases r)
    (simp_all add: fetchWeatherData_def fetchWeatherData_try_def getMockWeatherData_def
      getWeatherRecommendation_def)

theorem fetchWeatherData_falls_back_to_mock_witness:
  "rejects (BadBody :: weather_data http_response) \<and>
   fetchWeatherData 1 103 BadBody fresh_world = (Some getMockWeatherData, fresh_world) \<and>
   rejects (NotOk :: weather_data http_response) \<and>
   fetchWeatherData 1 103 NotOk fresh_world = (Some getMockWeatherData, fresh_world) \<and>
   rejects (NetworkError :: weather_data http_response) \<and>
   fetchWeatherData 1 103 NetworkError fresh_world = (Some getMockWeatherData, fresh_world)"
  using fetchWeatherData_falls_back_to_mock [of BadBody 1 103 fresh_world]
    fetchWeatherData_falls_back_to_mock [of NotOk 1 103 fresh_world]
    fetchWeatherData_falls_back_to_mock [of NetworkError 1 103 fresh_world]
  by simp

end
